theory Spec2Isabelle
  imports Main
begin

section \<open>Data model\<close>

text \<open>
  JSON values as Python's \<open>json.load\<close> yields them. A Python \<open>dict\<close> keeps insertion
  order, so it is an association list; \<open>json.load\<close> never yields two entries with one key.
  A float is carried by the text Python's \<open>str\<close> prints for it (\<open>0.0\<close>, \<open>500.0\<close>):
  the code only stores floats, passes them on and prints them.
\<close>

datatype json =
    JNull
  | JBool bool
  | JInt int
  | JFloat string
  | JStr string
  | JList "json list"
  | JDict "(string \<times> json) list"

type_synonym 'v pydict = "(string \<times> 'v) list"

text \<open>\<open>d[k] = v\<close>: an existing key keeps its place, a new key goes to the end.\<close>

fun dict_set :: "'v pydict \<Rightarrow> string \<Rightarrow> 'v \<Rightarrow> 'v pydict" where
  "dict_set [] k v = [(k, v)]"
| "dict_set ((k', v') # d) k v = (if k' = k then (k, v) # d else (k', v') # dict_set d k v)"

text \<open>
  The template file (\<open>structs\<close>, \<open>enums\<close>, \<open>objects\<close>). A member read with
  \<open>.get\<close> is optional. Entries of a struct other than \<open>parent\<close> and \<open>fields\<close> are
  never read by the code and are left out, and so for an enum. The \<open>objects\<close> entry of
  an object type is a JSON object: its \<open>struct\<close> and its literal default values.
\<close>

record field_def =
  f_name :: string
  f_type :: string
  f_subtype :: "string option"
  f_array_size :: "int option"

record struct_def =
  sd_parent :: "string option"
  sd_fields :: "field_def list option"

record enum_info =
  ei_name :: "string option"
  ei_description :: "string option"
  ei_value :: "json option"

record enum_def =
  ed_default_key :: "string option"
  ed_values :: "enum_info pydict option"

record template =
  t_objects :: "json pydict pydict"
  t_structs :: "struct_def pydict"
  t_enums :: "enum_def pydict"

section \<open>Schema resolver: \<open>get_struct_fields\<close>\<close>

text \<open>\<open>struct_def.get("fields", [])\<close>; a name that is not in \<open>structs\<close> reads as \<open>{}\<close>.\<close>

definition fields_of :: "struct_def \<Rightarrow> field_def list" where
  "fields_of sd = (case sd_fields sd of None \<Rightarrow> [] | Some fs \<Rightarrow> fs)"

definition own_fields :: "template \<Rightarrow> string \<Rightarrow> field_def list" where
  "own_fields td n = (case map_of (t_structs td) n of None \<Rightarrow> [] | Some sd \<Rightarrow> fields_of sd)"

text \<open>\<open>struct_def.get("parent")\<close> where it is truthy: present and not the empty string.\<close>

definition parent_of :: "template \<Rightarrow> string \<Rightarrow> string option" where
  "parent_of td n =
     (case map_of (t_structs td) n of
        None \<Rightarrow> None
      | Some sd \<Rightarrow> (case sd_parent sd of None \<Rightarrow> None | Some p \<Rightarrow> if p = [] then None else Some p))"

text \<open>
  The nested function of \<open>apply_hson_template_to_object\<close>. The set \<open>_visited\<close> is one
  object shared along the call chain; each call makes at most one recursive call, so
  passing the grown set down is the same.
\<close>

function get_struct_fields :: "string \<Rightarrow> template \<Rightarrow> string set \<Rightarrow> field_def list" where
  "get_struct_fields struct_name td visited =
     (if struct_name \<in> visited then []
      else (case parent_of td struct_name of
              None \<Rightarrow> []
            | Some parent \<Rightarrow> get_struct_fields parent td (insert struct_name visited))
           @ own_fields td struct_name)"
  by pat_completeness auto
termination
proof (relation "measure (\<lambda>(n, td, visited). card (fst ` set (t_structs td) - visited))")
  show "wf (measure (\<lambda>(n, td, visited). card (fst ` set (t_structs td) - visited)))"
    by simp
next
  fix struct_name :: string and td :: template and visited :: "string set" and parent :: string
  assume nv: "struct_name \<notin> visited" and p: "parent_of td struct_name = Some parent"
  from p have "struct_name \<in> fst ` set (t_structs td)"
    by (auto simp: parent_of_def split: option.splits dest: map_of_SomeD intro: rev_image_eqI)
  with nv have "card (fst ` set (t_structs td) - insert struct_name visited)
                < card (fst ` set (t_structs td) - visited)"
    by (intro psubset_card_mono) auto
  then show "((parent, td, insert struct_name visited), (struct_name, td, visited))
             \<in> measure (\<lambda>(n, td, visited). card (fst ` set (t_structs td) - visited))"
    by simp
qed

declare get_struct_fields.simps [simp del]

text \<open>
  The parent chain of a struct, without any guard: the first \<open>k\<close> names met when
  following \<open>parent\<close> from \<open>n\<close> (fewer when the chain ends before).
\<close>

fun parent_chain :: "nat \<Rightarrow> template \<Rightarrow> string \<Rightarrow> string list" where
  "parent_chain 0 td n = []"
| "parent_chain (Suc k) td n =
     n # (case parent_of td n of None \<Rightarrow> [] | Some p \<Rightarrow> parent_chain k td p)"

text \<open>
  A parent chain is acyclic when following \<open>parent\<close> reaches a struct with no parent:
  \<open>chain_of td n ns\<close> holds when \<open>ns\<close> is that finite chain, \<open>n\<close> first, the root last.
\<close>

inductive chain_of :: "template \<Rightarrow> string \<Rightarrow> string list \<Rightarrow> bool" where
  root: "parent_of td n = None \<Longrightarrow> chain_of td n [n]"
| step: "parent_of td n = Some p \<Longrightarrow> chain_of td p ns \<Longrightarrow> chain_of td n (n # ns)"

code_pred chain_of .

subsection \<open>Properties of the parent chain\<close>


lemma chain_of_nonempty: "chain_of td n ns \<Longrightarrow> ns \<noteq> [] \<and> hd ns = n"
  by (induction rule: chain_of.induct) auto

lemma chain_of_det: "chain_of td n ns \<Longrightarrow> chain_of td n ms \<Longrightarrow> ns = ms"
proof (induction arbitrary: ms rule: chain_of.induct)
  case (root td n)
  then show ?case by (auto elim: chain_of.cases)
next
  case (step td n p ns)
  from step.prems step.hyps(1) obtain ms' where "ms = n # ms'" "chain_of td p ms'"
    by (auto elim: chain_of.cases)
  with step.IH show ?case by simp
qed

lemma chain_of_suffix:
  "chain_of td n ns \<Longrightarrow> m \<in> set ns \<Longrightarrow> \<exists>ms. chain_of td m ms \<and> length ms \<le> length ns"
proof (induction rule: chain_of.induct)
  case (root td n)
  then show ?case by (auto intro: chain_of.root)
next
  case (step td n p ns)
  show ?case
  proof (cases "m = n")
    case True
    have "chain_of td n (n # ns)" using step.hyps by (rule chain_of.step)
    with True show ?thesis by auto
  next
    case False
    with step.prems have "m \<in> set ns" by simp
    from step.IH [OF this] show ?thesis by auto
  qed
qed

lemma chain_of_distinct: "chain_of td n ns \<Longrightarrow> distinct ns"
proof (induction rule: chain_of.induct)
  case (root td n)
  then show ?case by simp
next
  case (step td n p ns)
  have "n \<notin> set ns"
  proof
    assume "n \<in> set ns"
    from chain_of_suffix [OF step.hyps(2) this] obtain ms
      where ms: "chain_of td n ms" "length ms \<le> length ns" by blast
    have "chain_of td n (n # ns)" using step.hyps by (rule chain_of.step)
    with ms(1) have "ms = n # ns" by (rule chain_of_det)
    with ms(2) show False by simp
  qed
  with step.IH show ?case by simp
qed

lemma chain_of_parent_chain: "chain_of td n ns \<Longrightarrow> parent_chain (length ns) td n = ns"
  by (induction rule: chain_of.induct) auto

lemma get_struct_fields_chain:
  "chain_of td n ns \<Longrightarrow> set ns \<inter> visited = {} \<Longrightarrow>
   get_struct_fields n td visited = concat (map (own_fields td) (rev ns))"
proof (induction arbitrary: visited rule: chain_of.induct)
  case (root td n)
  then show ?case by (simp add: get_struct_fields.simps)
next
  case (step td n p ns)
  have d: "distinct (n # ns)"
    using chain_of.step [OF step.hyps] by (rule chain_of_distinct)
  with step.prems have "set ns \<inter> insert n visited = {}" by auto
  from step.IH [OF this] step.prems step.hyps(1) show ?case
    by (simp add: get_struct_fields.simps)
qed

lemma get_struct_fields_prefix:
  "\<exists>k. distinct (parent_chain k td n) \<and> set (parent_chain k td n) \<inter> visited = {} \<and>
       get_struct_fields n td visited = concat (map (own_fields td) (rev (parent_chain k td n))) \<and>
       (parent_chain (Suc k) td n = parent_chain k td n \<or>
        \<not> distinct (parent_chain (Suc k) td n) \<or>
        set (parent_chain (Suc k) td n) \<inter> visited \<noteq> {})"
proof (induction n td visited rule: get_struct_fields.induct)
  case (1 n td visited)
  show ?case
  proof (cases "n \<in> visited")
    case True
    then have "distinct (parent_chain 0 td n) \<and> set (parent_chain 0 td n) \<inter> visited = {} \<and>
       get_struct_fields n td visited = concat (map (own_fields td) (rev (parent_chain 0 td n))) \<and>
       set (parent_chain (Suc 0) td n) \<inter> visited \<noteq> {}"
      by (simp add: get_struct_fields.simps)
    then show ?thesis by blast
  next
    case nv: False
    show ?thesis
    proof (cases "parent_of td n")
      case None
      with nv have "distinct (parent_chain 1 td n) \<and> set (parent_chain 1 td n) \<inter> visited = {} \<and>
       get_struct_fields n td visited = concat (map (own_fields td) (rev (parent_chain 1 td n))) \<and>
       parent_chain (Suc 1) td n = parent_chain 1 td n"
        by (simp add: get_struct_fields.simps)
      then show ?thesis by blast
    next
      case (Some p)
      from "1.IH" [OF nv Some] obtain k where
        k: "distinct (parent_chain k td p)" "set (parent_chain k td p) \<inter> insert n visited = {}"
           "get_struct_fields p td (insert n visited) = concat (map (own_fields td) (rev (parent_chain k td p)))"
           "parent_chain (Suc k) td p = parent_chain k td p \<or>
            \<not> distinct (parent_chain (Suc k) td p) \<or>
            set (parent_chain (Suc k) td p) \<inter> insert n visited \<noteq> {}"
        by blast
      have a: "distinct (parent_chain (Suc k) td n)" using k(1,2) Some by auto
      have b: "set (parent_chain (Suc k) td n) \<inter> visited = {}" using k(2) nv Some by auto
      have c: "get_struct_fields n td visited = concat (map (own_fields td) (rev (parent_chain (Suc k) td n)))"
        using k(3) nv Some by (simp add: get_struct_fields.simps)
      have e: "parent_chain (Suc (Suc k)) td n = n # parent_chain (Suc k) td p"
        using Some by simp
      have f: "parent_chain (Suc k) td n = n # parent_chain k td p"
        using Some by simp
      have d: "parent_chain (Suc (Suc k)) td n = parent_chain (Suc k) td n \<or>
        \<not> distinct (parent_chain (Suc (Suc k)) td n) \<or>
        set (parent_chain (Suc (Suc k)) td n) \<inter> visited \<noteq> {}"
        using k(4) unfolding e f by auto
      from a b c d show ?thesis by blast
    qed
  qed
qed



subsection \<open>Resolution on a cyclic chain\<close>

definition fld :: "string \<Rightarrow> string \<Rightarrow> field_def" where
  "fld n t = \<lparr>f_name = n, f_type = t, f_subtype = None, f_array_size = None\<rparr>"

text \<open>Two structs that name each other as parent.\<close>

definition cyclic_template :: template where
  "cyclic_template =
     \<lparr>t_objects = [],
      t_structs =
        [(''A'', \<lparr>sd_parent = Some ''B'', sd_fields = Some [fld ''x'' ''float'']\<rparr>),
         (''B'', \<lparr>sd_parent = Some ''A'', sd_fields = Some [fld ''y'' ''int'']\<rparr>)],
      t_enums = []\<rparr>"

text \<open>
  C10. \<open>get_struct_fields\<close> is a total function: the termination proof above covers
  every struct name and every template, cyclic parent chains included. Its result is the
  own fields of the structs of a repetition-free prefix of the parent chain, root-most
  first, and that prefix is the longest one: either the chain ends there or its next
  name is a struct already visited, which contributes nothing.
\<close>

theorem get_struct_fields_cyclic:
  "\<exists>k. distinct (parent_chain k td n) \<and>
       get_struct_fields n td {} = concat (map (own_fields td) (rev (parent_chain k td n))) \<and>
       (parent_chain (Suc k) td n = parent_chain k td n \<or>
        \<not> distinct (parent_chain (Suc k) td n))"
  using get_struct_fields_prefix [of td n "{}"] by simp

theorem get_struct_fields_cyclic_witness:
  "(\<exists>k. distinct (parent_chain k cyclic_template ''A'') \<and>
       get_struct_fields ''A'' cyclic_template {} =
         concat (map (own_fields cyclic_template) (rev (parent_chain k cyclic_template ''A''))) \<and>
       (parent_chain (Suc k) cyclic_template ''A'' = parent_chain k cyclic_template ''A'' \<or>
        \<not> distinct (parent_chain (Suc k) cyclic_template ''A''))) \<and>
   get_struct_fields ''A'' cyclic_template {} = [fld ''y'' ''int'', fld ''x'' ''float'']"
proof -
  have "get_struct_fields ''A'' cyclic_template {} = [fld ''y'' ''int'', fld ''x'' ''float'']"
    by (simp add: get_struct_fields.simps parent_of_def own_fields_def fields_of_def
        cyclic_template_def)
  with get_struct_fields_cyclic [of cyclic_template "''A''"] show ?thesis by blast
qed



section \<open>Python strings and values\<close>

text \<open>
  A Python \<open>str\<close> is a list of characters with code points below 256. On these,
  \<open>str.lower\<close> folds the letters \<open>A\<close> to \<open>Z\<close> and the letters \<open>0xC0\<close> to \<open>0xDE\<close>
  (\<open>0xD7\<close> apart), \<open>str.strip\<close> takes off the twelve characters for which
  \<open>str.isspace\<close> holds, and the digit class of \<open>re\<close> matches the ten digits only.
\<close>

definition is_digit :: "char \<Rightarrow> bool" where
  "is_digit c = (c \<in> set ''0123456789'')"

definition is_space :: "char \<Rightarrow> bool" where
  "is_space c = (c \<in> set [CHR '' '', CHR 0x09, CHR 0x0A, CHR 0x0B, CHR 0x0C, CHR 0x0D,
                            CHR 0x1C, CHR 0x1D, CHR 0x1E, CHR 0x1F, CHR 0x85, CHR 0xA0])"

definition upper_letters :: string where
  "upper_letters =
     ''ABCDEFGHIJKLMNOPQRSTUVWXYZ'' @
       [CHR 0xC0, CHR 0xC1, CHR 0xC2, CHR 0xC3, CHR 0xC4, CHR 0xC5, CHR 0xC6, CHR 0xC7,
        CHR 0xC8, CHR 0xC9, CHR 0xCA, CHR 0xCB, CHR 0xCC, CHR 0xCD, CHR 0xCE, CHR 0xCF,
        CHR 0xD0, CHR 0xD1, CHR 0xD2, CHR 0xD3, CHR 0xD4, CHR 0xD5, CHR 0xD6, CHR 0xD8,
        CHR 0xD9, CHR 0xDA, CHR 0xDB, CHR 0xDC, CHR 0xDD, CHR 0xDE]"

definition lower_letters :: string where
  "lower_letters =
     ''abcdefghijklmnopqrstuvwxyz'' @
       [CHR 0xE0, CHR 0xE1, CHR 0xE2, CHR 0xE3, CHR 0xE4, CHR 0xE5, CHR 0xE6, CHR 0xE7,
        CHR 0xE8, CHR 0xE9, CHR 0xEA, CHR 0xEB, CHR 0xEC, CHR 0xED, CHR 0xEE, CHR 0xEF,
        CHR 0xF0, CHR 0xF1, CHR 0xF2, CHR 0xF3, CHR 0xF4, CHR 0xF5, CHR 0xF6, CHR 0xF8,
        CHR 0xF9, CHR 0xFA, CHR 0xFB, CHR 0xFC, CHR 0xFD, CHR 0xFE]"

definition lower_char :: "char \<Rightarrow> char" where
  "lower_char c =
     (case map_of (zip upper_letters lower_letters) c of
        None \<Rightarrow> c
      | Some d \<Rightarrow> d)"

definition py_lower :: "string \<Rightarrow> string" where
  "py_lower s = map lower_char s"

definition py_strip :: "string \<Rightarrow> string" where
  "py_strip s = rev (dropWhile is_space (rev (dropWhile is_space s)))"

definition starts_with :: "string \<Rightarrow> string \<Rightarrow> bool" where
  "starts_with s p = (take (length p) s = p)"

text \<open>\<open>p in s\<close> for two strings.\<close>

fun contains :: "string \<Rightarrow> string \<Rightarrow> bool" where
  "contains p [] = (p = [])"
| "contains p (c # cs) = (starts_with (c # cs) p \<or> contains p cs)"

text \<open>
  \<open>s.split(sep)\<close> for a non-empty separator: matches are taken left to right and do not
  overlap. \<open>skip\<close> counts the characters of a matched separator still to pass.
\<close>

fun split_aux :: "string \<Rightarrow> nat \<Rightarrow> string \<Rightarrow> string \<Rightarrow> string list" where
  "split_aux sep skip cur [] = [cur]"
| "split_aux sep (Suc k) cur (c # cs) = split_aux sep k cur cs"
| "split_aux sep 0 cur (c # cs) =
     (if starts_with (c # cs) sep then cur # split_aux sep (length sep - 1) [] cs
      else split_aux sep 0 (cur @ [c]) cs)"

definition py_split :: "string \<Rightarrow> string \<Rightarrow> string list" where
  "py_split s sep = split_aux sep 0 [] s"

text \<open>\<open>sep.join(parts)\<close>.\<close>

fun py_join :: "string \<Rightarrow> string list \<Rightarrow> string" where
  "py_join sep [] = []"
| "py_join sep [p] = p"
| "py_join sep (p # q # ps) = p @ sep @ py_join sep (q # ps)"

text \<open>\<open>str(n)\<close> for an integer.\<close>

definition digit_char :: "nat \<Rightarrow> char" where
  "digit_char d = ''0123456789'' ! d"

fun show_nat :: "nat \<Rightarrow> string" where
  "show_nat n = (if n < 10 then [digit_char n] else show_nat (n div 10) @ [digit_char (n mod 10)])"

declare show_nat.simps [simp del]

definition show_int :: "int \<Rightarrow> string" where
  "show_int i = (if i < 0 then CHR ''-'' # show_nat (nat (- i)) else show_nat (nat i))"

text \<open>
  \<open>repr\<close> of a string: single quotes, unless the string holds a single quote and no
  double quote; the quote and the backslash are escaped, and so are the characters that
  are not printable.
\<close>

definition hex_digit :: "nat \<Rightarrow> char" where
  "hex_digit d = ''0123456789abcdef'' ! d"

definition repr_char :: "char \<Rightarrow> char \<Rightarrow> string" where
  "repr_char q c =
     (let n = (of_char c :: nat) in
      if c = q \<or> c = CHR 0x5C then [CHR 0x5C, c]
      else if c = CHR 0x09 then [CHR 0x5C, CHR ''t'']
      else if c = CHR 0x0A then [CHR 0x5C, CHR ''n'']
      else if c = CHR 0x0D then [CHR 0x5C, CHR ''r'']
      else if n < 32 \<or> (127 \<le> n \<and> n \<le> 160) \<or> n = 173
        then [CHR 0x5C, CHR ''x'', hex_digit (n div 16), hex_digit (n mod 16)]
      else [c])"

definition repr_str :: "string \<Rightarrow> string" where
  "repr_str s =
     (let q = (if CHR 0x27 \<in> set s \<and> CHR 0x22 \<notin> set s then CHR 0x22 else CHR 0x27)
      in [q] @ concat (map (repr_char q) s) @ [q])"

fun py_repr :: "json \<Rightarrow> string" where
  "py_repr JNull = ''None''"
| "py_repr (JBool b) = (if b then ''True'' else ''False'')"
| "py_repr (JInt i) = show_int i"
| "py_repr (JFloat s) = s"
| "py_repr (JStr s) = repr_str s"
| "py_repr (JList xs) = ''['' @ py_join '', '' (map py_repr xs) @ '']''"
| "py_repr (JDict d) =
     ''{'' @ py_join '', '' (map (\<lambda>(k, v). repr_str k @ '': '' @ py_repr v) d) @ ''}''"

text \<open>\<open>str(v)\<close>.\<close>

definition py_str :: "json \<Rightarrow> string" where
  "py_str v = (case v of JStr s \<Rightarrow> s | _ \<Rightarrow> py_repr v)"

text \<open>Truth value of a Python object, as \<open>if v:\<close> and \<open>and\<close> take it.\<close>

fun truthy :: "json \<Rightarrow> bool" where
  "truthy JNull = False"
| "truthy (JBool b) = b"
| "truthy (JInt i) = (i \<noteq> 0)"
| "truthy (JFloat s) = (s \<noteq> ''0.0'' \<and> s \<noteq> ''-0.0'')"
| "truthy (JStr s) = (s \<noteq> [])"
| "truthy (JList xs) = (xs \<noteq> [])"
| "truthy (JDict d) = (d \<noteq> [])"

datatype py_error = TypeError | KeyError | AttributeError | IndexError

text \<open>\<open>len(v)\<close>: a number or \<open>None\<close> has no length.\<close>

fun py_len :: "json \<Rightarrow> py_error + nat" where
  "py_len (JStr s) = Inr (length s)"
| "py_len (JList xs) = Inr (length xs)"
| "py_len (JDict d) = Inr (length d)"
| "py_len v = Inl TypeError"

text \<open>A list or a dict cannot be looked up in a dict: \<open>v in d\<close> raises for them.\<close>

fun hashable :: "json \<Rightarrow> bool" where
  "hashable (JList xs) = False"
| "hashable (JDict d) = False"
| "hashable v = True"

fun is_list :: "json \<Rightarrow> bool" where
  "is_list (JList xs) = True"
| "is_list v = False"


section \<open>Parameter marshaller: the field loop of \<open>apply_hson_template_to_object\<close>\<close>

text \<open>A dict is falsy when it is empty: a struct or an enum entry with no member.\<close>

definition struct_truthy :: "struct_def \<Rightarrow> bool" where
  "struct_truthy sd = (sd_parent sd \<noteq> None \<or> sd_fields sd \<noteq> None)"

definition enum_truthy :: "enum_def \<Rightarrow> bool" where
  "enum_truthy ed = (ed_default_key ed \<noteq> None \<or> ed_values ed \<noteq> None)"

text \<open>\<open>imported_params[k]\<close> under the guard \<open>imported_params and k in imported_params\<close>.\<close>

definition imp_lookup :: "json pydict option \<Rightarrow> string \<Rightarrow> json option" where
  "imp_lookup imported k =
     (case imported of None \<Rightarrow> None | Some d \<Rightarrow> if d = [] then None else map_of d k)"

text \<open>The zero value chosen by substring tests on the lower-cased type name.\<close>

definition zero_for :: "string \<Rightarrow> json" where
  "zero_for t =
     (if contains ''float'' t then JFloat ''0.0''
      else if contains ''int'' t then JInt 0
      else if contains ''bool'' t then JBool False
      else JStr '''')"

definition recognized :: "string list" where
  "recognized = [''int'', ''int8'', ''int16'', ''int32'', ''int64'',
                 ''uint32'', ''uint8'', ''uint16'', ''uint64'',
                 ''float'', ''float32'', ''bool'', ''string'', ''vector'', ''array'', ''vector3'']"

definition primitives :: "string list" where
  "primitives = [''uint32'', ''uint8'', ''uint16'', ''uint64'', ''int'', ''float'', ''bool'',
                 ''string'', ''vector3'', ''object_reference'']"

subsection \<open>Arrays of a primitive subtype\<close>

definition array_default :: "string \<Rightarrow> json" where
  "array_default subtype_lower =
     (if subtype_lower \<in> set [''int'', ''uint32'', ''uint8'', ''uint16'', ''uint64'',
                               ''int8'', ''int16'', ''int32'', ''int64''] then JInt 0
      else if subtype_lower \<in> set [''float'', ''float32''] then JFloat ''0.0''
      else if subtype_lower = ''bool'' then JBool False
      else JStr '''')"

text \<open>\<open>while len(new_val) < size: new_val.append(default_val)\<close>.\<close>

function pad_to :: "json list \<Rightarrow> int \<Rightarrow> json \<Rightarrow> json list" where
  "pad_to new_val asize default_val =
     (if int (length new_val) < asize then pad_to (new_val @ [default_val]) asize default_val
      else new_val)"
  by pat_completeness auto
termination
  by (relation "measure (\<lambda>(new_val, asize, d). nat (asize - int (length new_val)))") auto

declare pad_to.simps [simp del]

text \<open>
  \<open>new_val = arr if arr and len(arr) >= size else []\<close>, then the padding loop. An
  array that is long enough is kept as it is (the loop does not run); a shorter one is
  replaced by a new empty list before the loop.
\<close>

definition primitive_array :: "json \<Rightarrow> int \<Rightarrow> string \<Rightarrow> py_error + json" where
  "primitive_array arr asize subtype_lower =
     (if \<not> truthy arr then Inr (JList (pad_to [] asize (array_default subtype_lower)))
      else (case py_len arr of
              Inl e \<Rightarrow> Inl e
            | Inr n \<Rightarrow>
                if asize \<le> int n then Inr arr
                else Inr (JList (pad_to [] asize (array_default subtype_lower)))))"

subsection \<open>Sub-fields of a struct\<close>

text \<open>
  The value of one sub-field, shared by the array-of-struct and the inline-struct
  branches: the imported value under the new key replaces the one found so far, an
  enum-typed value is turned into a string, a \<open>string\<close> value is wrapped in a list.
\<close>

definition sub_field_value :: "json pydict option \<Rightarrow> string \<Rightarrow> string \<Rightarrow> json \<Rightarrow> json" where
  "sub_field_value imported new_key sub_ftype found =
     (let v1 = (case imp_lookup imported new_key of None \<Rightarrow> found | Some v \<Rightarrow> v);
          v2 = (if contains ''::'' sub_ftype
                then (if v1 = JStr '''' \<or> v1 = JNull then JStr '''' else JStr (py_str v1))
                else v1)
      in if py_lower sub_ftype = ''string'' \<and> \<not> is_list v2 then JList [v2] else v2)"

record build_state =
  bs_params :: "json pydict"
  bs_types :: "string pydict"
  bs_td :: template

definition put :: "string \<Rightarrow> json \<Rightarrow> string \<Rightarrow> build_state \<Rightarrow> build_state" where
  "put k v t st = st\<lparr>bs_params := dict_set (bs_params st) k v, bs_types := dict_set (bs_types st) k t\<rparr>"

text \<open>
  One element of an array of structs: \<open>arr[idx].get(sub_fname, "")\<close> when \<open>arr\<close> is a
  list with a dict at \<open>idx\<close>, the zero value of the sub-field's type otherwise.
\<close>

definition array_elem_value :: "json \<Rightarrow> nat \<Rightarrow> string \<Rightarrow> string \<Rightarrow> json" where
  "array_elem_value arr idx sub_fname sub_ftype =
     (case arr of
        JList xs \<Rightarrow>
          (if idx < length xs
           then (case xs ! idx of
                   JDict d \<Rightarrow> (case map_of d sub_fname of None \<Rightarrow> JStr '''' | Some v \<Rightarrow> v)
                 | _ \<Rightarrow> zero_for (py_lower sub_ftype))
           else zero_for (py_lower sub_ftype))
      | _ \<Rightarrow> zero_for (py_lower sub_ftype))"

definition array_struct_step ::
  "json pydict option \<Rightarrow> string \<Rightarrow> json \<Rightarrow> nat \<Rightarrow> build_state \<Rightarrow> field_def \<Rightarrow> build_state" where
  "array_struct_step imported fname arr idx st sub_field =
     (let new_key = fname @ show_nat idx @ '':'' @ f_name sub_field
      in put new_key
           (sub_field_value imported new_key (f_type sub_field)
              (array_elem_value arr idx (f_name sub_field) (f_type sub_field)))
           (f_type sub_field) st)"

text \<open>
  \<open>for idx in range(size): for sub_field in sub_struct_def.get("fields", [])\<close>: the
  sub-struct's own field list, as it stands in the template.
\<close>

definition expand_array_struct ::
  "json pydict option \<Rightarrow> string \<Rightarrow> json \<Rightarrow> int \<Rightarrow> struct_def \<Rightarrow> build_state \<Rightarrow> build_state" where
  "expand_array_struct imported fname arr asize sub_struct_def st =
     foldl (\<lambda>s idx. foldl (array_struct_step imported fname arr idx) s (fields_of sub_struct_def))
       st [0 ..< nat asize]"

subsection \<open>Plain and enum fields\<close>

definition enum_lookup :: "template \<Rightarrow> string \<Rightarrow> enum_def option" where
  "enum_lookup td ftype =
     (case map_of (t_enums td) ftype of
        Some ed \<Rightarrow> if enum_truthy ed then Some ed
                   else (case map_of (t_enums td) (last (py_split ftype ''::'')) of
                           Some ed' \<Rightarrow> if enum_truthy ed' then Some ed' else None
                         | None \<Rightarrow> None)
      | None \<Rightarrow> (case map_of (t_enums td) (last (py_split ftype ''::'')) of
                   Some ed' \<Rightarrow> if enum_truthy ed' then Some ed' else None
                 | None \<Rightarrow> None))"

definition values_of :: "enum_def \<Rightarrow> enum_info pydict" where
  "values_of ed = (case ed_values ed of None \<Rightarrow> [] | Some ev \<Rightarrow> ev)"

definition raw_value :: "enum_info \<Rightarrow> json" where
  "raw_value info = (case ei_value info of None \<Rightarrow> JStr '''' | Some v \<Rightarrow> v)"

text \<open>\<open>v in ev\<close> for a hashable \<open>v\<close>: the keys of \<open>ev\<close> are strings.\<close>

definition is_key :: "enum_info pydict \<Rightarrow> json \<Rightarrow> bool" where
  "is_key ev v = (case v of JStr s \<Rightarrow> s \<in> fst ` set ev | _ \<Rightarrow> False)"

text \<open>\<open>list(ev.keys())[0] if ev else ""\<close>.\<close>

definition first_key :: "enum_info pydict \<Rightarrow> json" where
  "first_key ev = (case ev of [] \<Rightarrow> JStr '''' | (k, v) # rest \<Rightarrow> JStr k)"

text \<open>
  The enum resolution of a plain field:
  \<^verbatim>\<open>
  if new_val not in ev and str(new_val) not in ev:
      for k, v in ev.items():
          if str(v.get("value", "")) == str(new_val):
              new_val = k; break
  if new_val not in ev:
      new_val = list(ev.keys())[0] if ev else ""
  \<close>
\<close>

definition resolve_enum :: "enum_info pydict \<Rightarrow> json \<Rightarrow> py_error + json" where
  "resolve_enum ev new_val =
     (if \<not> hashable new_val then Inl TypeError
      else
        (let v1 = (if \<not> is_key ev new_val \<and> py_str new_val \<notin> fst ` set ev
                   then (case find (\<lambda>(k, v). py_str (raw_value v) = py_str new_val) ev of
                           None \<Rightarrow> new_val
                         | Some (k, v) \<Rightarrow> JStr k)
                   else new_val)
         in Inr (if \<not> is_key ev v1 then first_key ev else v1)))"



text \<open>
  \<open>default_val = template_obj.get(fname, zero)\<close>, and the imported value in its place
  when there is one.
\<close>

definition plain_source :: "json pydict \<Rightarrow> json pydict option \<Rightarrow> string \<Rightarrow> string \<Rightarrow> json" where
  "plain_source template_obj imported fname ftype_lower =
     (case imp_lookup imported fname of
        None \<Rightarrow> (case map_of template_obj fname of None \<Rightarrow> zero_for ftype_lower | Some v \<Rightarrow> v)
      | Some v \<Rightarrow> v)"

definition plain_field ::
  "json pydict \<Rightarrow> json pydict option \<Rightarrow> string \<Rightarrow> string \<Rightarrow> build_state \<Rightarrow> py_error + build_state" where
  "plain_field template_obj imported fname ftype st =
     (let ftype_lower = py_lower ftype;
          new_val = plain_source template_obj imported fname ftype_lower;
          resolved =
            (if contains ''::'' ftype
             then (case enum_lookup (bs_td st) ftype of
                     None \<Rightarrow> Inr new_val
                   | Some ed \<Rightarrow> resolve_enum (values_of ed) new_val)
             else Inr new_val)
      in case resolved of
           Inl e \<Rightarrow> Inl e
         | Inr v \<Rightarrow>
             Inr (put fname (if ftype_lower = ''string'' \<and> \<not> is_list v then JList [v] else v) ftype st))"

subsection \<open>Inline sub-structs\<close>

text \<open>
  The parent loop of the inline branch. It appends to the field list of the sub-struct
  where it stands in the template, so the template is part of the state:
  \<^verbatim>\<open>
  parent = sub_struct_def.get("parent")
  while parent:
      parent_struct_def = template_data.get("structs", {}).get(parent)
      if parent_struct_def:
          sub_struct_def["fields"].extend(parent_struct_def.get("fields", []))
          parent = parent_struct_def.get("parent")
      else:
          break
  \<close>
  The loop has no guard against a cycle of parents: where it does not end, its value is
  \<open>None\<close>.
\<close>

partial_function (option) merge_parents ::
  "string \<Rightarrow> string option \<Rightarrow> template \<Rightarrow> (py_error + template) option" where
  "merge_parents ftype parent td =
     (case parent of
        None \<Rightarrow> Some (Inr td)
      | Some p \<Rightarrow>
          if p = [] then Some (Inr td)
          else (case map_of (t_structs td) p of
                  None \<Rightarrow> Some (Inr td)
                | Some parent_struct_def \<Rightarrow>
                    if \<not> struct_truthy parent_struct_def then Some (Inr td)
                    else (case map_of (t_structs td) ftype of
                            None \<Rightarrow> Some (Inl KeyError)
                          | Some sub_struct_def \<Rightarrow>
                              (case sd_fields sub_struct_def of
                                 None \<Rightarrow> Some (Inl KeyError)
                               | Some fs \<Rightarrow>
                                   merge_parents ftype (sd_parent parent_struct_def)
                                     (td\<lparr>t_structs :=
                                          dict_set (t_structs td) ftype
                                            (sub_struct_def\<lparr>sd_fields :=
                                               Some (fs @ fields_of parent_struct_def)\<rparr>)\<rparr>)))))"

declare merge_parents.simps [code]

definition inline_value :: "json pydict \<Rightarrow> string \<Rightarrow> string \<Rightarrow> string \<Rightarrow> json" where
  "inline_value template_obj fname sub_fname sub_ftype =
     (case map_of template_obj fname of
        Some (JDict d) \<Rightarrow> (case map_of d sub_fname of None \<Rightarrow> JStr '''' | Some v \<Rightarrow> v)
      | _ \<Rightarrow> zero_for (py_lower sub_ftype))"

definition inline_step ::
  "json pydict \<Rightarrow> json pydict option \<Rightarrow> string \<Rightarrow> build_state \<Rightarrow> field_def \<Rightarrow> build_state" where
  "inline_step template_obj imported fname st sub_field =
     (let new_key = fname @ '':'' @ f_name sub_field
      in put new_key
           (sub_field_value imported new_key (f_type sub_field)
              (inline_value template_obj fname (f_name sub_field) (f_type sub_field)))
           (f_type sub_field) st)"

definition expand_inline ::
  "json pydict \<Rightarrow> json pydict option \<Rightarrow> string \<Rightarrow> string \<Rightarrow> build_state \<Rightarrow> (py_error + build_state) option" where
  "expand_inline template_obj imported fname ftype st =
     (case map_of (t_structs (bs_td st)) ftype of
        None \<Rightarrow> Some (Inr st)
      | Some sub_struct_def \<Rightarrow>
          if \<not> struct_truthy sub_struct_def then Some (Inr st)
          else (case merge_parents ftype (sd_parent sub_struct_def) (bs_td st) of
                  None \<Rightarrow> None
                | Some (Inl e) \<Rightarrow> Some (Inl e)
                | Some (Inr td') \<Rightarrow>
                    Some (Inr (foldl (inline_step template_obj imported fname)
                                 (st\<lparr>bs_td := td'\<rparr>) (own_fields td' ftype)))))"

subsection \<open>One field, and the loop over the resolved fields\<close>

text \<open>
  \<open>arr = template_obj.get(fname, [])\<close>, replaced by \<open>imported_params[fname]\<close> when the
  imported parameters hold the field.
\<close>

definition array_source :: "json pydict \<Rightarrow> json pydict option \<Rightarrow> string \<Rightarrow> json" where
  "array_source template_obj imported fname =
     (case imp_lookup imported fname of
        None \<Rightarrow> (case map_of template_obj fname of None \<Rightarrow> JList [] | Some v \<Rightarrow> v)
      | Some v \<Rightarrow> v)"

definition process_field ::
  "json pydict \<Rightarrow> json pydict option \<Rightarrow> field_def \<Rightarrow> build_state \<Rightarrow> (py_error + build_state) option" where
  "process_field template_obj imported field st =
     (let fname = f_name field;
          ftype = (if f_type field \<noteq> [] \<and> py_lower (f_type field) = ''object_reference''
                   then ''string'' else f_type field);
          ftype_lower = py_lower ftype
      in if ftype_lower = ''array'' \<and> f_subtype field \<noteq> None then
           (let subtype = the (f_subtype field);
                subtype_lower = py_lower subtype;
                arr = array_source template_obj imported fname;
                asize = (case f_array_size field of None \<Rightarrow> 1 | Some n \<Rightarrow> n)
            in if subtype_lower \<in> set primitives then
                 (case primitive_array arr asize subtype_lower of
                    Inl e \<Rightarrow> Some (Inl e)
                  | Inr new_val \<Rightarrow> Some (Inr (put fname new_val subtype st)))
               else (case map_of (t_structs (bs_td st)) subtype of
                       None \<Rightarrow> Some (Inr (put fname arr ''array'' st))
                     | Some sub_struct_def \<Rightarrow>
                         if struct_truthy sub_struct_def
                         then Some (Inr (expand_array_struct imported fname arr asize sub_struct_def st))
                         else Some (Inr (put fname arr ''array'' st))))
         else if ftype_lower \<in> set recognized \<or> contains ''::'' ftype then
           Some (plain_field template_obj imported fname ftype st)
         else expand_inline template_obj imported fname ftype st)"

fun process_fields ::
  "json pydict \<Rightarrow> json pydict option \<Rightarrow> field_def list \<Rightarrow> build_state \<Rightarrow> (py_error + build_state) option" where
  "process_fields template_obj imported [] st = Some (Inr st)"
| "process_fields template_obj imported (field # rest) st =
     (case process_field template_obj imported field st of
        None \<Rightarrow> None
      | Some (Inl e) \<Rightarrow> Some (Inl e)
      | Some (Inr st') \<Rightarrow> process_fields template_obj imported rest st')"

text \<open>
  The two parameters every object gets before the schema's fields, then the loop over
  \<open>get_struct_fields(object_struct, template_data)\<close>.
\<close>

definition initial_state :: "json pydict option \<Rightarrow> template \<Rightarrow> build_state" where
  "initial_state imported td =
     put ''tags:RangeSpawning:rangeOut''
       (case imp_lookup imported ''tags:RangeSpawning:rangeOut'' of None \<Rightarrow> JFloat ''20.0'' | Some v \<Rightarrow> v)
       ''float''
       (put ''tags:RangeSpawning:rangeIn''
          (case imp_lookup imported ''tags:RangeSpawning:rangeIn'' of None \<Rightarrow> JFloat ''500.0'' | Some v \<Rightarrow> v)
          ''float''
          \<lparr>bs_params = [], bs_types = [], bs_td = td\<rparr>)"

definition build_params ::
  "json pydict \<Rightarrow> json pydict option \<Rightarrow> string \<Rightarrow> template \<Rightarrow> (py_error + build_state) option" where
  "build_params template_obj imported object_struct td =
     process_fields template_obj imported (get_struct_fields object_struct td {})
       (initial_state imported td)"


section \<open>An example template\<close>

text \<open>
  A struct \<open>S\<close> with parent \<open>P\<close> and grandparent \<open>G\<close>, and an object struct with an
  array of \<open>S\<close>, an inline \<open>S\<close>, an array of integers and an enum field.
\<close>

definition mode_enum :: enum_def where
  "mode_enum =
     \<lparr>ed_default_key = Some ''B'',
      ed_values = Some
        [(''A'', \<lparr>ei_name = None, ei_description = None, ei_value = Some (JInt 0)\<rparr>),
         (''B'', \<lparr>ei_name = None, ei_description = None, ei_value = Some (JInt 1)\<rparr>)]\<rparr>"

definition example_template :: template where
  "example_template =
     \<lparr>t_objects = [(''Obj'', [(''struct'', JStr ''Obj'')])],
      t_structs =
        [(''G'', \<lparr>sd_parent = None, sd_fields = Some [fld ''g'' ''float'']\<rparr>),
         (''P'', \<lparr>sd_parent = Some ''G'', sd_fields = Some [fld ''p'' ''int'']\<rparr>),
         (''S'', \<lparr>sd_parent = Some ''P'', sd_fields = Some [fld ''s'' ''bool'']\<rparr>),
         (''Obj'', \<lparr>sd_parent = None, sd_fields = Some
             [\<lparr>f_name = ''arr'', f_type = ''array'', f_subtype = Some ''S'', f_array_size = Some 2\<rparr>,
              fld ''inl'' ''S'',
              \<lparr>f_name = ''nums'', f_type = ''array'', f_subtype = Some ''int'', f_array_size = Some 3\<rparr>,
              fld ''mode'' ''Ns::Mode'']\<rparr>)],
      t_enums = [(''Mode'', mode_enum)]\<rparr>"




section \<open>Arrays of a primitive subtype\<close>










section \<open>Enum fallback\<close>


lemma first_key_not_list: "\<not> is_list (first_key ev)"
  by (simp add: first_key_def split: list.splits prod.splits)






section \<open>Sub-struct expansion\<close>


lemma map_of_dict_set: "map_of (dict_set d k v) k' = (if k' = k then Some v else map_of d k')"
  by (induction d k v rule: dict_set.induct) auto























definition written_keys :: "(py_error + build_state) option \<Rightarrow> string list option" where
  "written_keys r = (case r of Some (Inr st) \<Rightarrow> Some (map fst (bs_params st)) | _ \<Rightarrow> None)"





text \<open>Applying the template to a second object, on the template the first call left.\<close>

definition second_apply ::
  "json pydict \<Rightarrow> json pydict option \<Rightarrow> string \<Rightarrow> template \<Rightarrow> (py_error + build_state) option" where
  "second_apply template_obj imported object_struct td =
     (case build_params template_obj imported object_struct td of
        Some (Inr st) \<Rightarrow> build_params template_obj imported object_struct (bs_td st)
      | r \<Rightarrow> r)"

definition schema_after :: "(py_error + build_state) option \<Rightarrow> template option" where
  "schema_after r = (case r of Some (Inr st) \<Rightarrow> Some (bs_td st) | _ \<Rightarrow> None)"

text \<open>
  C9 fails on the code. The parent loop of the inline branch appends to the field list
  that the template itself holds (\<open>sub_struct_def["fields"].extend(...)\<close>), so after one
  application the struct \<open>S\<close> of the template has the fields \<open>s, p, g\<close>, and a second
  object resolved against the same template object gets the keys \<open>arr0:p\<close> and
  \<open>arr0:g\<close> that the first did not get.
\<close>

theorem inline_expansion_changes_template:
  "schema_after (build_params [(''struct'', JStr ''Obj'')] None ''Obj'' example_template)
     \<noteq> Some example_template
   \<and> map_option (\<lambda>td. map f_name (own_fields td ''S''))
       (schema_after (build_params [(''struct'', JStr ''Obj'')] None ''Obj'' example_template))
     = Some [''s'', ''p'', ''g'']
   \<and> written_keys (build_params [(''struct'', JStr ''Obj'')] None ''Obj'' example_template)
     = Some [''tags:RangeSpawning:rangeIn'', ''tags:RangeSpawning:rangeOut'',
             ''arr0:s'', ''arr1:s'', ''inl:s'', ''inl:p'', ''inl:g'', ''nums'', ''mode'']
   \<and> written_keys (second_apply [(''struct'', JStr ''Obj'')] None ''Obj'' example_template)
     = Some [''tags:RangeSpawning:rangeIn'', ''tags:RangeSpawning:rangeOut'',
             ''arr0:s'', ''arr0:p'', ''arr0:g'', ''arr1:s'', ''arr1:p'', ''arr1:g'',
             ''inl:s'', ''inl:p'', ''inl:g'', ''nums'', ''mode'']"
  by code_simp


section \<open>Parent fields first, last writer wins\<close>


text \<open>
  The type a field is processed under (\<open>object_reference\<close> is read as \<open>string\<close>), the
  fields that take the plain branch with no enum, and the value that branch stores.
\<close>

definition norm_type :: "field_def \<Rightarrow> string" where
  "norm_type field =
     (if f_type field \<noteq> [] \<and> py_lower (f_type field) = ''object_reference''
      then ''string'' else f_type field)"

definition plain :: "field_def \<Rightarrow> bool" where
  "plain field =
     (py_lower (norm_type field) \<in> set recognized \<and>
      \<not> (py_lower (norm_type field) = ''array'' \<and> f_subtype field \<noteq> None) \<and>
      \<not> contains ''::'' (norm_type field))"

definition plain_value :: "json pydict \<Rightarrow> json pydict option \<Rightarrow> field_def \<Rightarrow> json" where
  "plain_value template_obj imported field =
     (let v = plain_source template_obj imported (f_name field) (py_lower (norm_type field))
      in if py_lower (norm_type field) = ''string'' \<and> \<not> is_list v then JList [v] else v)"

lemma plain_step:
  "plain field \<Longrightarrow>
   process_field template_obj imported field st
   = Some (Inr (put (f_name field) (plain_value template_obj imported field) (norm_type field) st))"
  by (auto simp: plain_def process_field_def plain_field_def plain_value_def norm_type_def Let_def)

lemma process_fields_append:
  "process_fields template_obj imported (xs @ ys) st
   = (case process_fields template_obj imported xs st of
        Some (Inr st') \<Rightarrow> process_fields template_obj imported ys st'
      | r \<Rightarrow> r)"
  by (induction xs arbitrary: st) (auto split: option.splits sum.splits)

lemma process_fields_plain:
  "\<forall>g \<in> set post. plain g \<and> f_name g \<noteq> k \<Longrightarrow>
   \<exists>st'. process_fields template_obj imported post st = Some (Inr st') \<and>
         map_of (bs_params st') k = map_of (bs_params st) k \<and>
         map_of (bs_types st') k = map_of (bs_types st) k"
proof (induction post arbitrary: st)
  case Nil
  show ?case by simp
next
  case (Cons g post)
  let ?s = "put (f_name g) (plain_value template_obj imported g) (norm_type g) st"
  from Cons.prems have g: "plain g" "f_name g \<noteq> k" and rest: "\<forall>g \<in> set post. plain g \<and> f_name g \<noteq> k"
    by auto
  from Cons.IH [OF rest, of ?s] obtain st' where
    st': "process_fields template_obj imported post ?s = Some (Inr st')"
         "map_of (bs_params st') k = map_of (bs_params ?s) k"
         "map_of (bs_types st') k = map_of (bs_types ?s) k"
    by blast
  from g(2) have "map_of (bs_params ?s) k = map_of (bs_params st) k"
    "map_of (bs_types ?s) k = map_of (bs_types st) k"
    by (simp_all add: put_def map_of_dict_set)
  with st' g(1) show ?case by (simp add: plain_step)
qed

lemma last_writer:
  assumes "all_fields = pre @ c # post"
    and "plain c"
    and "\<forall>g \<in> set post. plain g \<and> f_name g \<noteq> f_name c"
    and "process_fields template_obj imported all_fields st = Some (Inr st')"
  shows "map_of (bs_params st') (f_name c) = Some (plain_value template_obj imported c) \<and>
         map_of (bs_types st') (f_name c) = Some (norm_type c)"
proof -
  from assms(1,4) obtain s1 where
    s1: "process_fields template_obj imported pre st = Some (Inr s1)"
    and r: "process_fields template_obj imported (c # post) s1 = Some (Inr st')"
    by (auto simp: process_fields_append split: option.splits sum.splits)
  let ?s2 = "put (f_name c) (plain_value template_obj imported c) (norm_type c) s1"
  from r assms(2) have r2: "process_fields template_obj imported post ?s2 = Some (Inr st')"
    by (simp add: plain_step)
  from process_fields_plain [OF assms(3), of template_obj imported ?s2] r2
  have "map_of (bs_params st') (f_name c) = map_of (bs_params ?s2) (f_name c)"
    "map_of (bs_types st') (f_name c) = map_of (bs_types ?s2) (f_name c)"
    by auto
  then show ?thesis by (simp add: put_def map_of_dict_set)
qed

text \<open>
  C1. For a struct whose parent chain is acyclic, \<open>get_struct_fields\<close> returns the own
  fields of the structs of the chain, root first and the struct itself last, each list in
  its declaration order and nothing removed: the resolved fields of the parent come
  before the struct's own fields. A child field with the name of a parent field is
  therefore a later entry of the same list, and in the field loop the later entry
  wins: after the loop the flat parameter map and the type map hold, under that name,
  what the last plain field of the name stored.
\<close>

theorem parent_fields_first:
  assumes "chain_of td n ns"
  shows "get_struct_fields n td {} = concat (map (own_fields td) (rev ns)) \<and>
         (\<forall>p. parent_of td n = Some p \<longrightarrow>
              get_struct_fields n td {} = get_struct_fields p td {} @ own_fields td n) \<and>
         (\<forall>pre c post st st'.
              get_struct_fields n td {} = pre @ c # post \<and> plain c \<and>
              (\<forall>g \<in> set post. plain g \<and> f_name g \<noteq> f_name c) \<and>
              process_fields template_obj imported (get_struct_fields n td {}) st = Some (Inr st')
              \<longrightarrow> map_of (bs_params st') (f_name c) = Some (plain_value template_obj imported c) \<and>
                  map_of (bs_types st') (f_name c) = Some (norm_type c))"
proof (intro conjI allI impI)
  show a: "get_struct_fields n td {} = concat (map (own_fields td) (rev ns))"
    using assms by (intro get_struct_fields_chain) simp_all
next
  fix p assume p: "parent_of td n = Some p"
  with assms obtain ns' where ns: "ns = n # ns'" and ch: "chain_of td p ns'"
    by (auto elim: chain_of.cases)
  have "get_struct_fields p td {} = concat (map (own_fields td) (rev ns'))"
    using ch by (intro get_struct_fields_chain) simp_all
  moreover have "get_struct_fields n td {} = concat (map (own_fields td) (rev ns))"
    using assms by (intro get_struct_fields_chain) simp_all
  ultimately show "get_struct_fields n td {} = get_struct_fields p td {} @ own_fields td n"
    using ns by simp
next
  fix pre c post st st'
  assume h: "get_struct_fields n td {} = pre @ c # post \<and> plain c \<and>
              (\<forall>g \<in> set post. plain g \<and> f_name g \<noteq> f_name c) \<and>
              process_fields template_obj imported (get_struct_fields n td {}) st = Some (Inr st')"
  then have "map_of (bs_params st') (f_name c) = Some (plain_value template_obj imported c) \<and>
         map_of (bs_types st') (f_name c) = Some (norm_type c)"
    by (intro last_writer [where all_fields = "get_struct_fields n td {}" and pre = pre and post = post
          and st = st]) auto
  then show "map_of (bs_params st') (f_name c) = Some (plain_value template_obj imported c)"
    and "map_of (bs_types st') (f_name c) = Some (norm_type c)" by auto
qed


text \<open>A child struct that declares again a field of its parent, with another type.\<close>

definition shadow_template :: template where
  "shadow_template =
     \<lparr>t_objects = [],
      t_structs =
        [(''Base'', \<lparr>sd_parent = None, sd_fields = Some [fld ''x'' ''int'', fld ''y'' ''int'']\<rparr>),
         (''Child'', \<lparr>sd_parent = Some ''Base'', sd_fields = Some [fld ''x'' ''float'']\<rparr>)],
      t_enums = []\<rparr>"

definition shadow_state :: build_state where
  "shadow_state = \<lparr>bs_params = [], bs_types = [], bs_td = shadow_template\<rparr>"

theorem parent_fields_first_witness:
  "get_struct_fields ''Child'' shadow_template {}
     = [fld ''x'' ''int'', fld ''y'' ''int'', fld ''x'' ''float'']
   \<and> get_struct_fields ''Child'' shadow_template {}
     = get_struct_fields ''Base'' shadow_template {} @ own_fields shadow_template ''Child''
   \<and> (\<exists>st'. process_fields [] None (get_struct_fields ''Child'' shadow_template {}) shadow_state
             = Some (Inr st') \<and>
            map_of (bs_params st') ''x'' = Some (JFloat ''0.0'') \<and>
            map_of (bs_types st') ''x'' = Some ''float'')"
proof -
  have p1: "parent_of shadow_template ''Child'' = Some ''Base''" by code_simp
  have p2: "parent_of shadow_template ''Base'' = None" by code_simp
  have ch: "chain_of shadow_template ''Child'' [''Child'', ''Base'']"
    by (intro chain_of.step [OF p1] chain_of.root [OF p2])
  note t = parent_fields_first [OF ch, where template_obj = "[]" and imported = None]
  have own: "concat (map (own_fields shadow_template) (rev [''Child'', ''Base'']))
             = [fld ''x'' ''int'', fld ''y'' ''int'', fld ''x'' ''float'']"
    by code_simp
  from t have g: "get_struct_fields ''Child'' shadow_template {}
                  = [fld ''x'' ''int'', fld ''y'' ''int'', fld ''x'' ''float'']"
    unfolding own by blast
  from t p1 have g2: "get_struct_fields ''Child'' shadow_template {}
     = get_struct_fields ''Base'' shadow_template {} @ own_fields shadow_template ''Child''"
    by blast
  let ?fs = "[fld ''x'' ''int'', fld ''y'' ''int'', fld ''x'' ''float'']"
  have pl: "plain (fld ''x'' ''float'')" by code_simp
  have pv: "plain_value [] None (fld ''x'' ''float'') = JFloat ''0.0''" by code_simp
  have nt: "norm_type (fld ''x'' ''float'') = ''float''" by code_simp
  have "\<forall>g \<in> set ?fs. plain g \<and> f_name g \<noteq> ''none''" by code_simp
  from process_fields_plain [OF this, of "[]" None shadow_state]
  obtain st' where r: "process_fields [] None ?fs shadow_state = Some (Inr st')" by blast
  have sp: "?fs = [fld ''x'' ''int'', fld ''y'' ''int''] @ fld ''x'' ''float'' # []" by simp
  from t have "get_struct_fields ''Child'' shadow_template {}
                 = [fld ''x'' ''int'', fld ''y'' ''int''] @ fld ''x'' ''float'' # [] \<and>
               plain (fld ''x'' ''float'') \<and>
               (\<forall>g \<in> set []. plain g \<and> f_name g \<noteq> f_name (fld ''x'' ''float'')) \<and>
               process_fields [] None (get_struct_fields ''Child'' shadow_template {}) shadow_state
                 = Some (Inr st')
               \<longrightarrow> map_of (bs_params st') (f_name (fld ''x'' ''float''))
                     = Some (plain_value [] None (fld ''x'' ''float'')) \<and>
                   map_of (bs_types st') (f_name (fld ''x'' ''float''))
                     = Some (norm_type (fld ''x'' ''float''))"
    by blast
  with g pl r have "map_of (bs_params st') (f_name (fld ''x'' ''float''))
                     = Some (plain_value [] None (fld ''x'' ''float'')) \<and>
                   map_of (bs_types st') (f_name (fld ''x'' ''float''))
                     = Some (norm_type (fld ''x'' ''float''))"
    by simp
  then have "map_of (bs_params st') ''x'' = Some (JFloat ''0.0'') \<and>
             map_of (bs_types st') ''x'' = Some ''float''"
    unfolding pv nt by (simp add: fld_def)
  with r g g2 show ?thesis by auto
qed


section \<open>Enum options of a resolved parameter\<close>

text \<open>
  The parameter records of an object (\<open>HSONParametersPropertyGroup\<close>) and the options of
  an enum parameter (\<open>HSONParameterListItem\<close>). A float property is carried by its text.
\<close>

record enum_item =
  it_value :: string
  it_name :: string
  it_description :: string
  it_selected :: bool

record hson_param =
  hp_name :: string
  hp_float_value :: string
  hp_int_value :: int
  hp_bool_value :: bool
  hp_string_value :: string
  hp_list_value :: "string list"
  hp_enum_items :: "enum_item list"

text \<open>
  \<open>enum_items[i].selected = True\<close>. The property \<open>selected\<close> has the update function
  \<open>update_enum_selection\<close>: when the host runs it with the object at hand as
  \<open>context.object\<close> (\<open>hook\<close>), it clears the flag of every other option of the parameter
  and writes the option's value to \<open>string_value\<close>; with no such object it does nothing
  (its exception is swallowed).
\<close>

definition select_item :: "bool \<Rightarrow> nat \<Rightarrow> hson_param \<Rightarrow> hson_param" where
  "select_item hook i item =
     (let items = hp_enum_items item in
      if hook
      then item\<lparr>hp_enum_items := (map (\<lambda>it. it\<lparr>it_selected := False\<rparr>) items)
                                     [i := (items ! i)\<lparr>it_selected := True\<rparr>],
                hp_string_value := it_value (items ! i)\<rparr>
      else item\<lparr>hp_enum_items := items[i := (items ! i)\<lparr>it_selected := True\<rparr>]\<rparr>)"

text \<open>\<open>imported_val == enum_key.lower() or imported_val == enum_val\<close>.\<close>

definition matches :: "string \<Rightarrow> string \<times> enum_info \<Rightarrow> bool" where
  "matches imported_val e =
     (imported_val = py_lower (fst e) \<or>
      imported_val = py_lower (py_strip (py_str (raw_value (snd e)))))"

definition new_item :: "string \<times> enum_info \<Rightarrow> enum_item" where
  "new_item e =
     \<lparr>it_value = fst e,
      it_name = (case ei_name (snd e) of None \<Rightarrow> fst e | Some n \<Rightarrow> n),
      it_description = (case ei_description (snd e) of None \<Rightarrow> '''' | Some d \<Rightarrow> d),
      it_selected = False\<rparr>"

text \<open>One round of \<open>for enum_key, enum_info in ev.items()\<close>, with \<open>selected_found\<close>.\<close>

definition enum_step :: "bool \<Rightarrow> string \<Rightarrow> hson_param \<times> bool \<Rightarrow> string \<times> enum_info \<Rightarrow> hson_param \<times> bool" where
  "enum_step hook imported_val acc e =
     (let item = fst acc;
          item1 = item\<lparr>hp_enum_items := hp_enum_items item @ [new_item e]\<rparr>
      in if matches imported_val e
         then (select_item hook (length (hp_enum_items item)) item1, True)
         else (item1, snd acc))"

text \<open>
  The body for one parameter:
  \<^verbatim>\<open>
  item.enum_items.clear()
  selected_found = False
  imported_val = str(item.string_value).strip().lower()
  for enum_key, enum_info in ev.items(): ...
  if not selected_found and len(item.enum_items) > 0:
      item.enum_items[0].selected = True
  \<close>
\<close>

definition fill_enum_items :: "bool \<Rightarrow> enum_info pydict \<Rightarrow> hson_param \<Rightarrow> hson_param" where
  "fill_enum_items hook ev item =
     (let imported_val = py_lower (py_strip (hp_string_value item));
          r = foldl (enum_step hook imported_val) (item\<lparr>hp_enum_items := []\<rparr>, False) ev
      in if \<not> snd r \<and> 0 < length (hp_enum_items (fst r)) then select_item hook 0 (fst r)
         else fst r)"

text \<open>
  The pass over \<open>types.items()\<close> after the parameters are stored: a type with no
  \<open>::\<close> and an enum that the template does not define are skipped. The pass stands
  after the registrar in one \<open>try\<close> block and runs only when the registrar has not
  raised (\<open>enum_stage\<close> below).
\<close>

definition enum_pass ::
  "bool \<Rightarrow> template \<Rightarrow> string pydict \<Rightarrow> hson_param list \<Rightarrow> hson_param list" where
  "enum_pass hook td types params =
     foldl (\<lambda>ps (field_name, ftype).
              if contains ''::'' ftype
              then (case enum_lookup td ftype of
                      None \<Rightarrow> ps
                    | Some ed \<Rightarrow>
                        map (\<lambda>item. if starts_with (hp_name item) (field_name @ '':enum'')
                                     then fill_enum_items hook (values_of ed) item else item) ps)
              else ps)
       params types"















lemma count_first:
  "length (filter (\<lambda>b. b) (True # replicate n False)) = 1"
  by simp


lemma enum_pass_single:
  "contains ''::'' ftype \<Longrightarrow> enum_lookup td ftype = Some ed \<Longrightarrow>
   enum_pass hook td [(field_name, ftype)] params
   = map (\<lambda>item. if starts_with (hp_name item) (field_name @ '':enum'')
                   then fill_enum_items hook (values_of ed) item else item) params"
  by (simp add: enum_pass_def)






section \<open>The registrar and the selection pass in one application\<close>








subsection \<open>One parameter\<close>








lemma fill_enum_items_empty: "hp_enum_items (fill_enum_items hook [] item) = []"
  by (simp add: fill_enum_items_def)

subsection \<open>The registrar\<close>








subsection \<open>The selection pass\<close>

















end
